theory Spec2Isabelle
  imports Complex_Main
begin

section \<open>Participant list: data model\<close>

text \<open>
  The peer record of the SDK store, restricted to the fields that
  \<^verbatim>\<open>ParticipantList.tsx\<close> reads: \<^verbatim>\<open>peer.id\<close>, \<^verbatim>\<open>peer.name\<close> and the optional
  \<^verbatim>\<open>peer.roleName\<close> (\<open>None\<close> is JavaScript's \<^verbatim>\<open>undefined\<close>).
\<close>

record peer =
  peer_id :: string
  peer_name :: string
  roleName :: "string option"

text \<open>\<^verbatim>\<open>HMSPeerWithMuteStatus\<close>: a peer together with its audio status.\<close>

record participant =
  peer :: peer
  isAudioEnabled :: bool

text \<open>
  The local viewer's role as read through \<^verbatim>\<open>localPeerRole?.permissions?.changeRole\<close>:
  the role, its permission set and the flag may each be missing.
\<close>

record permissions =
  changeRole :: "bool option"

record role =
  role_permissions :: "permissions option"

text \<open>
  The component's \<^verbatim>\<open>useState\<close> cells: \<^verbatim>\<open>listOpen\<close> (initially \<^verbatim>\<open>false\<close>),
  \<^verbatim>\<open>selectedPeer\<close> (initially \<^verbatim>\<open>null\<close>), \<^verbatim>\<open>selectedRole\<close> (initially the empty
  string) and \<^verbatim>\<open>forceChange\<close> (initially \<^verbatim>\<open>false\<close>).
\<close>

record plist_state =
  listOpen :: bool
  selectedPeer :: "peer option"
  selectedRole :: string
  forceChange :: bool

definition initial_state :: plist_state where
  "initial_state =
     \<lparr>listOpen = False, selectedPeer = None, selectedRole = [], forceChange = False\<rparr>"

section \<open>Participant list: open/closed state\<close>

text \<open>\<^verbatim>\<open>handleClick = () => setListOpen(open => !open)\<close>\<close>

definition handleClick :: "plist_state \<Rightarrow> plist_state" where
  "handleClick st = st\<lparr>listOpen := \<not> listOpen st\<rparr>"

text \<open>\<^verbatim>\<open>handleClose = () => setListOpen(false)\<close>, the click-away handler.\<close>

definition handleClose :: "plist_state \<Rightarrow> plist_state" where
  "handleClose st = st\<lparr>listOpen := False\<rparr>"

section \<open>Participant list: role-change dialog\<close>

text \<open>The dialog is rendered with \<^verbatim>\<open>open={!!selectedPeer}\<close>.\<close>

definition dialog_open :: "plist_state \<Rightarrow> bool" where
  "dialog_open st = (selectedPeer st \<noteq> None)"

text \<open>
  The settings action of a row:
  \<^verbatim>\<open>setSelectedPeer(participant.peer); setSelectedRole(participant.peer.roleName || '')\<close>.
  An undefined and an empty role name both give the empty string.
\<close>

definition onUserSettingsClick :: "peer \<Rightarrow> plist_state \<Rightarrow> plist_state" where
  "onUserSettingsClick p st =
     st\<lparr>selectedPeer := Some p,
        selectedRole := (case roleName p of None \<Rightarrow> [] | Some r \<Rightarrow> r)\<rparr>"

text \<open>
  \<^verbatim>\<open>handleRoleChangeClose\<close>, bound to the dialog's \<^verbatim>\<open>onClose\<close> (backdrop click,
  escape key) and to the close button:
  \<^verbatim>\<open>setSelectedPeer(null); setForceChange(false)\<close>.
\<close>

definition handleRoleChangeClose :: "plist_state \<Rightarrow> plist_state" where
  "handleRoleChangeClose st = st\<lparr>selectedPeer := None, forceChange := False\<rparr>"

text \<open>\<^verbatim>\<open>handleInputChange\<close>: \<^verbatim>\<open>setSelectedRole(event.currentTarget.value)\<close>.\<close>

definition handleInputChange :: "string \<Rightarrow> plist_state \<Rightarrow> plist_state" where
  "handleInputChange v st = st\<lparr>selectedRole := v\<rparr>"

text \<open>
  The truthiness of \<^verbatim>\<open>localPeerRole?.permissions?.changeRole\<close>: a missing role,
  permission set or flag makes the chain undefined, hence falsy.
\<close>

definition changeRole_granted :: "role option \<Rightarrow> bool" where
  "changeRole_granted localPeerRole =
     (case localPeerRole of
        None \<Rightarrow> False
      | Some r \<Rightarrow>
          (case role_permissions r of
             None \<Rightarrow> False
           | Some ps \<Rightarrow> (case changeRole ps of None \<Rightarrow> False | Some b \<Rightarrow> b)))"

text \<open>The select's \<^verbatim>\<open>disabled={!localPeerRole?.permissions?.changeRole}\<close>.\<close>

definition select_disabled :: "role option \<Rightarrow> bool" where
  "select_disabled localPeerRole = (\<not> changeRole_granted localPeerRole)"

text \<open>
  The checkbox's \<^verbatim>\<open>disabled\<close> attribute:
  \<^verbatim>\<open>!selectedPeer || !selectedRole || selectedRole === selectedPeer.roleName\<close>.
  A string is never strictly equal to \<^verbatim>\<open>undefined\<close>.
\<close>

definition checkbox_disabled :: "plist_state \<Rightarrow> bool" where
  "checkbox_disabled st =
     (case selectedPeer st of
        None \<Rightarrow> True
      | Some p \<Rightarrow> selectedRole st = [] \<or> Some (selectedRole st) = roleName p)"

text \<open>
  The checkbox's \<^verbatim>\<open>onChange={() => setForceChange(prev => !prev)}\<close>. A disabled
  input delivers no change event, so the click is dropped there.
\<close>

definition checkbox_click :: "plist_state \<Rightarrow> plist_state" where
  "checkbox_click st =
     (if checkbox_disabled st then st else st\<lparr>forceChange := \<not> forceChange st\<rparr>)"

text \<open>A change of the select; a disabled select delivers none.\<close>

definition select_change :: "role option \<Rightarrow> string \<Rightarrow> plist_state \<Rightarrow> plist_state" where
  "select_change localPeerRole v st =
     (if select_disabled localPeerRole then st else handleInputChange v st)"

subsection \<open>Saving\<close>

text \<open>
  How a promise settles. For the SDK call \<open>Rejected m\<close> carries the rejection's
  \<^verbatim>\<open>message\<close>.
\<close>

datatype settled = Resolved | Rejected string

text \<open>The arguments of \<^verbatim>\<open>hmsActions.changeRole(peerId, roleName, force)\<close>.\<close>

type_synonym changeRole_args = "string \<times> string \<times> bool"

text \<open>
  One run of \<^verbatim>\<open>handleSaveSettings\<close>: the SDK calls it made, the toasts it raised,
  how its own promise settled, and the component state it leaves.
\<close>

record save_run =
  sdk_calls :: "changeRole_args list"
  toasts :: "string list"
  returned :: settled
  final :: plist_state

text \<open>
  \<^verbatim>\<open>handleSaveSettings\<close>. The SDK is a parameter that says how the call with
  given arguments settles. The guard returns early; otherwise the call is
  made only when the peer's role name differs from the selected role, a
  rejection is caught and its message passed to \<^verbatim>\<open>toast\<close>, and the two
  setters run after the \<^verbatim>\<open>try\<close> block in every case. The handler is run
  here without other events arriving while the call is awaited.
\<close>

definition handleSaveSettings ::
  "role option \<Rightarrow> (changeRole_args \<Rightarrow> settled) \<Rightarrow> plist_state \<Rightarrow> save_run" where
  "handleSaveSettings localPeerRole sdk st =
     (case selectedPeer st of
        None \<Rightarrow> \<lparr>sdk_calls = [], toasts = [], returned = Resolved, final = st\<rparr>
      | Some p \<Rightarrow>
          if selectedRole st = [] \<or> \<not> changeRole_granted localPeerRole
          then \<lparr>sdk_calls = [], toasts = [], returned = Resolved, final = st\<rparr>
          else
            let closed = st\<lparr>selectedPeer := None, forceChange := False\<rparr> in
            if roleName p \<noteq> Some (selectedRole st)
            then
              let args = (peer_id p, selectedRole st, forceChange st) in
              (case sdk args of
                 Resolved \<Rightarrow>
                   \<lparr>sdk_calls = [args], toasts = [], returned = Resolved, final = closed\<rparr>
               | Rejected m \<Rightarrow>
                   \<lparr>sdk_calls = [args], toasts = [m], returned = Resolved, final = closed\<rparr>)
            else \<lparr>sdk_calls = [], toasts = [], returned = Resolved, final = closed\<rparr>)"

text \<open>Concrete data used in the examples below.\<close>

definition alice :: peer where
  "alice = \<lparr>peer_id = ''a'', peer_name = ''Alice'', roleName = Some ''host''\<rparr>"

definition moderator :: "role option" where
  "moderator = Some \<lparr>role_permissions = Some \<lparr>changeRole = Some True\<rparr>\<rparr>"

definition viewer :: "role option" where
  "viewer = Some \<lparr>role_permissions = Some \<lparr>changeRole = Some False\<rparr>\<rparr>"

definition dialog_on_alice :: "string \<Rightarrow> bool \<Rightarrow> plist_state" where
  "dialog_on_alice r f =
     \<lparr>listOpen = True, selectedPeer = Some alice, selectedRole = r, forceChange = f\<rparr>"

section \<open>Participant list: events and the \<^verbatim>\<open>onToggle\<close> effect\<close>

text \<open>
  What the user can do to a mounted list: click the toggle button, click
  outside the list, open the settings of a row, close the dialog, change the
  select, click the checkbox, press Confirm.
\<close>

datatype ui_event =
    ToggleClick
  | ClickAway
  | UserSettingsClick peer
  | RoleChangeClose
  | SelectChange string
  | CheckboxClick
  | ConfirmClick

text \<open>The state update of each event, through the handler bound to it.\<close>

fun handle :: "role option \<Rightarrow> (changeRole_args \<Rightarrow> settled) \<Rightarrow> ui_event \<Rightarrow> plist_state \<Rightarrow> plist_state" where
  "handle lpr sdk ToggleClick st = handleClick st"
| "handle lpr sdk ClickAway st = handleClose st"
| "handle lpr sdk (UserSettingsClick p) st = onUserSettingsClick p st"
| "handle lpr sdk RoleChangeClose st = handleRoleChangeClose st"
| "handle lpr sdk (SelectChange v) st = select_change lpr v st"
| "handle lpr sdk CheckboxClick st = checkbox_click st"
| "handle lpr sdk ConfirmClick st = final (handleSaveSettings lpr sdk st)"

text \<open>
  The mounted component: its state, the value of the dependency
  \<^verbatim>\<open>[listOpen]\<close> at the last run of the effect (\<open>None\<close> before the first
  render is committed), and the log of the calls made to \<^verbatim>\<open>onToggle\<close>.
\<close>

record mounted =
  state :: plist_state
  effect_dep :: "bool option"
  onToggle_log :: "bool list"

text \<open>
  \<^verbatim>\<open>useEffect(() => { if (onToggle) { onToggle(listOpen); } }, [listOpen])\<close>:
  after a render is committed the effect runs when it has never run or when
  \<^verbatim>\<open>listOpen\<close> differs from its value at the last run. The flag \<open>onToggle\<close>
  says whether the caller passed the callback.
\<close>

definition commit_render :: "bool \<Rightarrow> mounted \<Rightarrow> mounted" where
  "commit_render onToggle m =
     (if effect_dep m = Some (listOpen (state m)) then m
      else m\<lparr>effect_dep := Some (listOpen (state m)),
             onToggle_log :=
               onToggle_log m @ (if onToggle then [listOpen (state m)] else [])\<rparr>)"

text \<open>Mounting renders the initial state and commits it.\<close>

definition mount :: "bool \<Rightarrow> mounted" where
  "mount onToggle =
     commit_render onToggle \<lparr>state = initial_state, effect_dep = None, onToggle_log = []\<rparr>"

text \<open>An event updates the state; the component renders again and commits.\<close>

definition dispatch ::
  "bool \<Rightarrow> role option \<Rightarrow> (changeRole_args \<Rightarrow> settled) \<Rightarrow> mounted \<Rightarrow> ui_event \<Rightarrow> mounted" where
  "dispatch onToggle lpr sdk m ev =
     commit_render onToggle (m\<lparr>state := handle lpr sdk ev (state m)\<rparr>)"

definition run_events ::
  "bool \<Rightarrow> role option \<Rightarrow> (changeRole_args \<Rightarrow> settled) \<Rightarrow> ui_event list \<Rightarrow> mounted" where
  "run_events onToggle lpr sdk evs = foldl (dispatch onToggle lpr sdk) (mount onToggle) evs"

text \<open>
  Independently of the effect: the successive values of \<^verbatim>\<open>listOpen\<close> after each
  event of a sequence, from a given state, and the transitions among them, each
  named by the value it leads to.
\<close>

fun open_trace ::
  "role option \<Rightarrow> (changeRole_args \<Rightarrow> settled) \<Rightarrow> plist_state \<Rightarrow> ui_event list \<Rightarrow> bool list" where
  "open_trace lpr sdk st [] = []"
| "open_trace lpr sdk st (ev # evs) =
     listOpen (handle lpr sdk ev st) # open_trace lpr sdk (handle lpr sdk ev st) evs"

fun transitions :: "bool \<Rightarrow> bool list \<Rightarrow> bool list" where
  "transitions b [] = []"
| "transitions b (c # cs) = (if c = b then transitions c cs else c # transitions c cs)"

section \<open>Participant list: grouping by role\<close>

text \<open>
  A value used as a property name is converted to a string; \<^verbatim>\<open>undefined\<close>
  becomes the string \<^verbatim>\<open>undefined\<close>.
\<close>

definition property_key :: "string option \<Rightarrow> string" where
  "property_key v = (case v of None \<Rightarrow> ''undefined'' | Some s \<Rightarrow> s)"

text \<open>
  An object with string keys: its own properties in the order of their
  creation.
\<close>

type_synonym 'a js_object = "(string \<times> 'a) list"

text \<open>
  The aggregator of lodash's \<^verbatim>\<open>groupBy\<close>: a value is pushed on the array under
  its key when the result has the key, and becomes a new one-element array
  under a new key otherwise.
\<close>

fun group_push :: "string \<Rightarrow> 'a \<Rightarrow> 'a list js_object \<Rightarrow> 'a list js_object" where
  "group_push k v [] = [(k, [v])]"
| "group_push k v ((k', vs) # rest) =
     (if k' = k then (k', vs @ [v]) # rest else (k', vs) # group_push k v rest)"

text \<open>\<^verbatim>\<open>groupBy(collection, iteratee)\<close> walks the array from index 0.\<close>

definition groupBy :: "'a list \<Rightarrow> ('a \<Rightarrow> string option) \<Rightarrow> 'a list js_object" where
  "groupBy collection iteratee =
     foldl (\<lambda>result v. group_push (property_key (iteratee v)) v result) [] collection"

text \<open>
  \<^verbatim>\<open>Object.keys\<close> lists the keys that are array indices (canonical decimal
  numerals below \<open>2\<^sup>3\<^sup>2 - 1\<close>) first, in ascending numeric order, and the
  other keys after them in the order of their creation.
\<close>

definition is_digit :: "char \<Rightarrow> bool" where
  "is_digit c = (48 \<le> (of_char c :: nat) \<and> (of_char c :: nat) \<le> 57)"

definition index_value :: "string \<Rightarrow> nat" where
  "index_value s = foldl (\<lambda>n c. 10 * n + (of_char c - 48)) 0 s"

definition is_array_index :: "string \<Rightarrow> bool" where
  "is_array_index s =
     (s \<noteq> [] \<and> list_all is_digit s \<and> (s = ''0'' \<or> hd s \<noteq> CHR ''0'') \<and>
      index_value s < 4294967295)"

definition object_keys :: "'a js_object \<Rightarrow> string list" where
  "object_keys obj =
     sort_key index_value (filter is_array_index (map fst obj)) @
     filter (\<lambda>k. \<not> is_array_index k) (map fst obj)"

text \<open>Decimal rendering of a count inside JSX.\<close>

fun show_nat :: "nat \<Rightarrow> string" where
  "show_nat n =
     (if n < 10 then [char_of (48 + n)]
      else show_nat (n div 10) @ [char_of (48 + n mod 10)])"

declare show_nat.simps [simp del]

text \<open>
  One rendered group: the text of its header and the rows under it, one row
  per participant, in order.
\<close>

record group_view =
  header :: string
  rows :: "participant list"

text \<open>
  The header text is
  \<^verbatim>\<open>{role === 'undefined' ? 'Unknown' : role}({rolesMap[role].length})\<close>.
  Reading \<^verbatim>\<open>.length\<close> of a missing entry would raise; that is \<open>None\<close> here.
\<close>

definition section_label :: "string \<Rightarrow> string" where
  "section_label role = (if role = ''undefined'' then ''Unknown'' else role)"

definition render_group :: "participant list js_object \<Rightarrow> string \<Rightarrow> group_view option" where
  "render_group rolesMap role =
     (case map_of rolesMap role of
        None \<Rightarrow> None
      | Some ps \<Rightarrow>
          Some \<lparr>header = section_label role @ ''('' @ show_nat (length ps) @ '')'',
                rows = ps\<rparr>)"

text \<open>
  \<^verbatim>\<open>rolesMap = groupBy(participantList, participant => participant.peer.roleName)\<close>
  and \<^verbatim>\<open>roles = Object.keys(rolesMap)\<close>; the menu maps over \<^verbatim>\<open>roles\<close>.
\<close>

definition rolesMap :: "participant list \<Rightarrow> participant list js_object" where
  "rolesMap participantList = groupBy participantList (\<lambda>participant. roleName (peer participant))"

definition roles :: "participant list \<Rightarrow> string list" where
  "roles participantList = object_keys (rolesMap participantList)"

definition render_menu :: "participant list \<Rightarrow> group_view option list" where
  "render_menu participantList =
     map (render_group (rolesMap participantList)) (roles participantList)"

section \<open>Class styling\<close>

text \<open>
  A class map: from the name of a slot to a string of class names. A slot the
  map does not define is \<open>None\<close>; an omitted map defines none.
\<close>

type_synonym ClassMap = "string \<rightharpoonup> string"

text \<open>
  Modelled from the spec: \<^verbatim>\<open>hmsUiClassParserGenerator\<close> of \<^verbatim>\<open>utils/classes\<close>, which
  the components import and whose body is not among the sources. Given the
  compiler handle \<^verbatim>\<open>tw\<close> (optional), the tag, the default map, the custom map
  and the caller's map, it yields the styler: for a slot, the caller's value if
  present, else the custom value if present, else the default value, else the
  empty string; with a compiler handle the resolved string is passed through
  the compiler before it is returned. The per-instance memo of compiled strings
  changes no result and is left out.
\<close>

definition hmsUiClassParserGenerator ::
  "(string \<Rightarrow> string) option \<Rightarrow> string \<Rightarrow> ClassMap \<Rightarrow> ClassMap \<Rightarrow> ClassMap \<Rightarrow> string \<Rightarrow> string" where
  "hmsUiClassParserGenerator tw tag defaultClasses customClasses classes slot =
     (let resolved =
        (case classes slot of
           Some c \<Rightarrow> c
         | None \<Rightarrow>
             (case customClasses slot of
                Some c \<Rightarrow> c
              | None \<Rightarrow> (case defaultClasses slot of Some c \<Rightarrow> c | None \<Rightarrow> [])))
      in case tw of None \<Rightarrow> resolved | Some compile \<Rightarrow> compile resolved)"

section \<open>Video tile\<close>

text \<open>
  JavaScript numbers are IEEE doubles. Their arithmetic is not fixed here: the
  operations the tile uses are the fields of a record that every function
  below takes, namely the number denoted by a literal, \<^verbatim>\<open>*\<close>, \<^verbatim>\<open>/\<close> and
  \<^verbatim>\<open>===\<close> on numbers.
\<close>

record 'n number_ops =
  literal :: "nat \<Rightarrow> 'n"
  times_op :: "'n \<Rightarrow> 'n \<Rightarrow> 'n"
  divide_op :: "'n \<Rightarrow> 'n \<Rightarrow> 'n"
  strict_eq :: "'n \<Rightarrow> 'n \<Rightarrow> bool"

datatype displayShape = circle | rectangle

text \<open>
  An aspect ratio object; \<open>ar_ref\<close> is the identity of the object, which is
  what a dependency array compares.
\<close>

record 'n aspectRatio =
  ar_ref :: nat
  ar_width :: 'n
  ar_height :: 'n

text \<open>
  A CSS length written by the template \<^verbatim>\<open>`${x}px`\<close>: of a number, or of
  \<^verbatim>\<open>undefined\<close>.
\<close>

datatype 'n css_length = Px 'n | Px_undefined

text \<open>
  The width set by \<^verbatim>\<open>getVideoStyles\<close> in \<^verbatim>\<open>Video\<close>. The props may be omitted:
  \<^verbatim>\<open>isSquareOrCircle\<close> is then falsy, \<^verbatim>\<open>height\<close> defaults to 1 and \<^verbatim>\<open>aspectRatio\<close> to
  16 by 9 (\<open>fresh\<close> is the identity of that new object).
\<close>

definition getVideoStyles_width ::
  "'n number_ops \<Rightarrow> nat \<Rightarrow> bool option \<Rightarrow> 'n option \<Rightarrow> 'n aspectRatio option \<Rightarrow> 'n css_length" where
  "getVideoStyles_width ops fresh isSquareOrCircle height aspectRatio =
     (let h = (case height of None \<Rightarrow> literal ops 1 | Some x \<Rightarrow> x);
          ar = (case aspectRatio of
                  None \<Rightarrow> \<lparr>ar_ref = fresh, ar_width = literal ops 16, ar_height = literal ops 9\<rparr>
                | Some a \<Rightarrow> a)
      in if isSquareOrCircle = Some True then Px h
         else Px (times_op ops (divide_op ops (ar_width ar) (ar_height ar)) h))"

text \<open>
  The props of \<^verbatim>\<open>VideoTile\<close> that the layout reads. \<open>stream\<close> is the identity of
  the media stream object.
\<close>

record 'n tile_props =
  stream :: nat
  aspectRatio :: "'n aspectRatio option"
  displayShape :: "displayShape option"

text \<open>
  The tile's \<^verbatim>\<open>height\<close> state (\<^verbatim>\<open>useState(0)\<close>; the measuring effect may store
  \<^verbatim>\<open>undefined\<close>) and the dependencies \<^verbatim>\<open>[stream, aspectRatio, displayShape]\<close> seen
  at the last run of that effect.
\<close>

record 'n tile_state =
  tile_height :: "'n option"
  tile_deps :: "(nat \<times> nat \<times> displayShape) option"

definition tile_initial :: "'n number_ops \<Rightarrow> 'n tile_state" where
  "tile_initial ops = \<lparr>tile_height = Some (literal ops 0), tile_deps = None\<rparr>"

text \<open>The props after their defaults: 16 by 9 and \<^verbatim>\<open>rectangle\<close>.\<close>

definition tile_aspectRatio :: "'n number_ops \<Rightarrow> nat \<Rightarrow> 'n tile_props \<Rightarrow> 'n aspectRatio" where
  "tile_aspectRatio ops fresh props =
     (case aspectRatio props of
        None \<Rightarrow> \<lparr>ar_ref = fresh, ar_width = literal ops 16, ar_height = literal ops 9\<rparr>
      | Some a \<Rightarrow> a)"

definition tile_displayShape :: "'n tile_props \<Rightarrow> displayShape" where
  "tile_displayShape props = (case displayShape props of None \<Rightarrow> rectangle | Some s \<Rightarrow> s)"

text \<open>
  \<^verbatim>\<open>isSquare = displayShape === 'rectangle' && aspectRatio.width === aspectRatio.height\<close>,
  \<^verbatim>\<open>isCircle = displayShape === 'circle'\<close>, \<^verbatim>\<open>isSquareOrCircle = isSquare || isCircle\<close>.
\<close>

definition isSquare :: "'n number_ops \<Rightarrow> nat \<Rightarrow> 'n tile_props \<Rightarrow> bool" where
  "isSquare ops fresh props =
     (tile_displayShape props = rectangle \<and>
      strict_eq ops (ar_width (tile_aspectRatio ops fresh props))
                    (ar_height (tile_aspectRatio ops fresh props)))"

definition isCircle :: "'n tile_props \<Rightarrow> bool" where
  "isCircle props = (tile_displayShape props = circle)"

definition isSquareOrCircle :: "'n number_ops \<Rightarrow> nat \<Rightarrow> 'n tile_props \<Rightarrow> bool" where
  "isSquareOrCircle ops fresh props = (isSquare ops fresh props \<or> isCircle props)"

text \<open>
  What one render of the tile lays out: the width of the container
  (\<^verbatim>\<open>isSquareOrCircle ? `${height}px` : undefined\<close>) and the width of the video
  element, from \<^verbatim>\<open>Video\<close> with the tile's height, shape flag and aspect ratio.
\<close>

record 'n tile_view =
  container_width :: "'n css_length option"
  video_width :: "'n css_length"

definition render_tile :: "'n number_ops \<Rightarrow> nat \<Rightarrow> 'n tile_props \<Rightarrow> 'n tile_state \<Rightarrow> 'n tile_view" where
  "render_tile ops fresh props st =
     \<lparr>container_width =
        (if isSquareOrCircle ops fresh props
         then Some (case tile_height st of None \<Rightarrow> Px_undefined | Some h \<Rightarrow> Px h)
         else None),
      video_width =
        getVideoStyles_width ops fresh (Some (isSquareOrCircle ops fresh props))
          (tile_height st) (Some (tile_aspectRatio ops fresh props))\<rparr>"

text \<open>
  The measuring effect, with dependencies \<^verbatim>\<open>[stream, aspectRatio, displayShape]\<close>:
  after a render is committed it runs when it has never run or when one of the
  three differs from its value at the last run, and stores what
  \<^verbatim>\<open>parent?.getBoundingClientRect().height\<close> gives (\<open>None\<close> when there is no
  parent element).
\<close>

definition measure_due :: "'n number_ops \<Rightarrow> nat \<Rightarrow> 'n tile_props \<Rightarrow> 'n tile_state \<Rightarrow> bool" where
  "measure_due ops fresh props st =
     (tile_deps st \<noteq>
      Some (stream props, ar_ref (tile_aspectRatio ops fresh props), tile_displayShape props))"

definition commit_tile ::
  "'n number_ops \<Rightarrow> nat \<Rightarrow> 'n tile_props \<Rightarrow> 'n option \<Rightarrow> 'n tile_state \<Rightarrow> 'n tile_state" where
  "commit_tile ops fresh props measured st =
     (if measure_due ops fresh props st
      then \<lparr>tile_height = measured,
            tile_deps =
              Some (stream props, ar_ref (tile_aspectRatio ops fresh props),
                    tile_displayShape props)\<rparr>
      else st)"

text \<open>Exact arithmetic on the rationals, for the examples.\<close>

definition rat_ops :: "rat number_ops" where
  "rat_ops = \<lparr>literal = of_nat, times_op = (*), divide_op = (/), strict_eq = (=)\<rparr>"

section \<open>Example data\<close>

text \<open>Participants for the grouping examples: an id, a role name, audio on.\<close>

definition member :: "string \<Rightarrow> string option \<Rightarrow> participant" where
  "member i r =
     \<lparr>peer = \<lparr>peer_id = i, peer_name = i, roleName = r\<rparr>, isAudioEnabled = True\<rparr>"

text \<open>A rectangular 16 by 9 tile.\<close>

definition wide :: "rat tile_props" where
  "wide =
     \<lparr>stream = 1, aspectRatio = Some \<lparr>ar_ref = 2, ar_width = 16, ar_height = 9\<rparr>,
      displayShape = Some rectangle\<rparr>"

section \<open>Toggling twice\<close>

text \<open>
  C4. From either starting state, open or closed, two toggle clicks in a row
  bring \<^verbatim>\<open>listOpen\<close> back to the value it had (the whole state is in fact
  unchanged), and the component starts closed.
\<close>

theorem toggle_twice_restores:
  "handleClick (handleClick st) = st \<and>
   listOpen (handleClick (handleClick st)) = listOpen st \<and>
   listOpen initial_state = False"
  by (simp add: handleClick_def initial_state_def)

section \<open>Saving a role change\<close>

lemma changeRole_granted_iff:
  "changeRole_granted lpr \<longleftrightarrow>
     (\<exists>r ps. lpr = Some r \<and> role_permissions r = Some ps \<and> changeRole ps = Some True)"
  by (auto simp: changeRole_granted_def split: option.splits)

text \<open>
  C5. Unless a peer is selected, a non-empty target role is chosen and the local
  viewer's role grants \<^verbatim>\<open>changeRole\<close>, saving calls the SDK not at all, raises no
  toast and leaves the state as it is; and without the \<^verbatim>\<open>changeRole\<close> permission
  the role select is rendered disabled.
\<close>

theorem save_guarded:
  "(selectedPeer st = None \<or> selectedRole st = [] \<or> \<not> changeRole_granted lpr \<longrightarrow>
      handleSaveSettings lpr sdk st =
        \<lparr>sdk_calls = [], toasts = [], returned = Resolved, final = st\<rparr>) \<and>
   (\<not> changeRole_granted lpr \<longrightarrow> select_disabled lpr)"
  by (auto simp: handleSaveSettings_def select_disabled_def split: option.splits)

theorem save_guarded_witness:
  "\<not> changeRole_granted viewer \<and>
   handleSaveSettings viewer (\<lambda>_. Resolved) (dialog_on_alice ''guest'' True) =
     \<lparr>sdk_calls = [], toasts = [], returned = Resolved, final = dialog_on_alice ''guest'' True\<rparr> \<and>
   select_disabled viewer"
  using save_guarded [of "dialog_on_alice ''guest'' True" viewer "\<lambda>_. Resolved"]
  by (simp add: changeRole_granted_def viewer_def)

text \<open>
  C6, as stated, speaks of every selected peer and chosen target role. For a
  viewer whose role does not grant \<^verbatim>\<open>changeRole\<close> the guard returns first: with
  the peer's own role chosen the dialog stays open, and with another role
  chosen no request is issued.
\<close>

theorem save_without_permission_counterexample:
  "selectedPeer (dialog_on_alice ''host'' False) = Some alice \<and>
   roleName alice = Some (selectedRole (dialog_on_alice ''host'' False)) \<and>
   dialog_open (final (handleSaveSettings viewer (\<lambda>_. Resolved) (dialog_on_alice ''host'' False))) \<and>
   selectedPeer (dialog_on_alice ''guest'' False) = Some alice \<and>
   roleName alice \<noteq> Some (selectedRole (dialog_on_alice ''guest'' False)) \<and>
   sdk_calls (handleSaveSettings viewer (\<lambda>_. Resolved) (dialog_on_alice ''guest'' False)) = []"
  by (simp add: handleSaveSettings_def dialog_on_alice_def alice_def viewer_def
      changeRole_granted_def dialog_open_def)

text \<open>
  C6, amended. For every selected peer and non-empty chosen target role, when
  the local viewer's role grants \<^verbatim>\<open>changeRole\<close>: if the target role equals the
  peer's current role, saving makes no SDK call and closes the dialog; if it
  differs, exactly one role-change request is issued, with the peer's id, the
  target role and the skip-confirmation flag.
\<close>

theorem save_same_or_different_role:
  assumes "selectedPeer st = Some p" and "selectedRole st \<noteq> []" and "changeRole_granted lpr"
  shows "(roleName p = Some (selectedRole st) \<longrightarrow>
            sdk_calls (handleSaveSettings lpr sdk st) = [] \<and>
            \<not> dialog_open (final (handleSaveSettings lpr sdk st))) \<and>
         (roleName p \<noteq> Some (selectedRole st) \<longrightarrow>
            sdk_calls (handleSaveSettings lpr sdk st) =
              [(peer_id p, selectedRole st, forceChange st)])"
  using assms
  by (auto simp: handleSaveSettings_def dialog_open_def Let_def split: settled.splits)

theorem save_same_or_different_role_witness:
  "sdk_calls (handleSaveSettings moderator (\<lambda>_. Resolved) (dialog_on_alice ''host'' True)) = [] \<and>
   \<not> dialog_open (final (handleSaveSettings moderator (\<lambda>_. Resolved) (dialog_on_alice ''host'' True))) \<and>
   sdk_calls (handleSaveSettings moderator (\<lambda>_. Resolved) (dialog_on_alice ''guest'' True)) =
     [(''a'', ''guest'', True)]"
proof -
  have granted: "changeRole_granted moderator"
    by (simp add: changeRole_granted_def moderator_def)
  have same: "roleName alice = Some (selectedRole (dialog_on_alice ''host'' True))"
    by (simp add: alice_def dialog_on_alice_def)
  have other: "roleName alice \<noteq> Some (selectedRole (dialog_on_alice ''guest'' True))"
    by (simp add: alice_def dialog_on_alice_def)
  have sel_host: "selectedPeer (dialog_on_alice ''host'' True) = Some alice"
    by (simp add: dialog_on_alice_def)
  have sel_guest: "selectedPeer (dialog_on_alice ''guest'' True) = Some alice"
    by (simp add: dialog_on_alice_def)
  have chosen:
    "selectedRole (dialog_on_alice ''host'' True) \<noteq> []"
    "selectedRole (dialog_on_alice ''guest'' True) \<noteq> []"
    by (simp_all add: dialog_on_alice_def)
  show ?thesis
    using save_same_or_different_role [OF sel_host chosen(1) granted, of "\<lambda>_. Resolved"]
      save_same_or_different_role [OF sel_guest chosen(2) granted, of "\<lambda>_. Resolved"]
      same other
    by (simp add: alice_def dialog_on_alice_def)
qed

text \<open>
  C7. Whenever a save issues an SDK call and that call rejects with message
  \<open>m\<close>: the call is the only one made (no retry), \<open>m\<close> is the one toast raised,
  the handler's own promise resolves (the failure goes no further), and the
  dialog is closed, with the selected peer cleared and the flag reset.
\<close>

theorem rejected_save:
  assumes "args \<in> set (sdk_calls (handleSaveSettings lpr sdk st))" and "sdk args = Rejected m"
  shows "sdk_calls (handleSaveSettings lpr sdk st) = [args] \<and>
         toasts (handleSaveSettings lpr sdk st) = [m] \<and>
         returned (handleSaveSettings lpr sdk st) = Resolved \<and>
         \<not> dialog_open (final (handleSaveSettings lpr sdk st)) \<and>
         final (handleSaveSettings lpr sdk st) = st\<lparr>selectedPeer := None, forceChange := False\<rparr>"
  using assms
  by (auto simp: handleSaveSettings_def dialog_open_def Let_def
      split: option.splits if_splits settled.splits)

theorem rejected_save_witness:
  "handleSaveSettings moderator (\<lambda>_. Rejected ''denied'') (dialog_on_alice ''guest'' True) =
     \<lparr>sdk_calls = [(''a'', ''guest'', True)], toasts = [''denied''], returned = Resolved,
      final = \<lparr>listOpen = True, selectedPeer = None, selectedRole = ''guest'',
               forceChange = False\<rparr>\<rparr>"
proof -
  have "(''a'', ''guest'', True) \<in>
        set (sdk_calls (handleSaveSettings moderator (\<lambda>_. Rejected ''denied'')
               (dialog_on_alice ''guest'' True)))"
    by (simp add: handleSaveSettings_def moderator_def changeRole_granted_def
        dialog_on_alice_def alice_def)
  from rejected_save [OF this, of "''denied''"] show ?thesis
    by (simp add: dialog_on_alice_def)
qed

section \<open>Closing the dialog\<close>

text \<open>
  C8, as stated, has the pending role name discarded when the dialog closes.
  Neither closing path writes \<^verbatim>\<open>selectedRole\<close>: after an explicit close and
  after a completed save the dialog is closed and the role name chosen before
  is still in the state.
\<close>

theorem close_keeps_selectedRole_counterexample:
  "dialog_open (dialog_on_alice ''guest'' True) \<and>
   \<not> dialog_open (handleRoleChangeClose (dialog_on_alice ''guest'' True)) \<and>
   selectedRole (handleRoleChangeClose (dialog_on_alice ''guest'' True)) = ''guest'' \<and>
   \<not> dialog_open
       (final (handleSaveSettings moderator (\<lambda>_. Resolved) (dialog_on_alice ''guest'' True))) \<and>
   selectedRole
       (final (handleSaveSettings moderator (\<lambda>_. Resolved) (dialog_on_alice ''guest'' True))) =
     ''guest''"
  by (simp add: handleRoleChangeClose_def dialog_on_alice_def dialog_open_def
      handleSaveSettings_def moderator_def changeRole_granted_def alice_def)

text \<open>
  C8, amended. On every path that closes the dialog (the close handler, bound
  to the close button and to the dialog's own \<^verbatim>\<open>onClose\<close>; a completed save; and
  so every event that takes the dialog from open to closed) the selected peer is
  cleared and the skip-confirmation flag is reset to false, while the pending
  target role name is left as it was. It is overwritten when a dialog is next
  opened, with that peer's role name, or the empty string when it has none.
\<close>

theorem closing_resets:
  "selectedPeer (handleRoleChangeClose st) = None \<and>
   forceChange (handleRoleChangeClose st) = False \<and>
   selectedRole (handleRoleChangeClose st) = selectedRole st \<and>
   (dialog_open st \<and> \<not> dialog_open (final (handleSaveSettings lpr sdk st)) \<longrightarrow>
      forceChange (final (handleSaveSettings lpr sdk st)) = False \<and>
      selectedRole (final (handleSaveSettings lpr sdk st)) = selectedRole st) \<and>
   (dialog_open st \<and> \<not> dialog_open (handle lpr sdk ev st) \<longrightarrow>
      forceChange (handle lpr sdk ev st) = False \<and>
      selectedRole (handle lpr sdk ev st) = selectedRole st) \<and>
   selectedRole (onUserSettingsClick p st) = (case roleName p of None \<Rightarrow> [] | Some r \<Rightarrow> r)"
proof (intro conjI)
  show "dialog_open st \<and> \<not> dialog_open (final (handleSaveSettings lpr sdk st)) \<longrightarrow>
      forceChange (final (handleSaveSettings lpr sdk st)) = False \<and>
      selectedRole (final (handleSaveSettings lpr sdk st)) = selectedRole st"
    by (auto simp: handleSaveSettings_def dialog_open_def Let_def
        split: option.splits settled.splits)
  show "dialog_open st \<and> \<not> dialog_open (handle lpr sdk ev st) \<longrightarrow>
      forceChange (handle lpr sdk ev st) = False \<and>
      selectedRole (handle lpr sdk ev st) = selectedRole st"
    by (cases ev)
      (auto simp: handleClick_def handleClose_def onUserSettingsClick_def
        handleRoleChangeClose_def select_change_def handleInputChange_def checkbox_click_def
        handleSaveSettings_def Let_def dialog_open_def
        split: option.splits settled.splits if_splits)
qed (simp_all add: handleRoleChangeClose_def onUserSettingsClick_def)

theorem closing_resets_witness:
  "selectedPeer (handleRoleChangeClose (dialog_on_alice ''guest'' True)) = None \<and>
   forceChange (handleRoleChangeClose (dialog_on_alice ''guest'' True)) = False \<and>
   selectedRole (handleRoleChangeClose (dialog_on_alice ''guest'' True)) = ''guest'' \<and>
   forceChange
     (final (handleSaveSettings moderator (\<lambda>_. Resolved) (dialog_on_alice ''guest'' True))) = False \<and>
   selectedRole
     (final (handleSaveSettings moderator (\<lambda>_. Resolved) (dialog_on_alice ''guest'' True))) = ''guest'' \<and>
   selectedRole (onUserSettingsClick alice (dialog_on_alice ''guest'' True)) = ''host''"
proof -
  have closes:
    "dialog_open (dialog_on_alice ''guest'' True) \<and>
     \<not> dialog_open
         (final (handleSaveSettings moderator (\<lambda>_. Resolved) (dialog_on_alice ''guest'' True)))"
    by (simp add: dialog_on_alice_def dialog_open_def handleSaveSettings_def moderator_def
        changeRole_granted_def alice_def)
  show ?thesis
    using closing_resets [of "dialog_on_alice ''guest'' True" moderator "\<lambda>_. Resolved"
        ConfirmClick alice] closes
    by (simp add: dialog_on_alice_def alice_def)
qed

section \<open>The skip-confirmation checkbox\<close>

text \<open>
  C10. The checkbox is disabled exactly when no peer is selected, or no target
  role is chosen, or the chosen role is the selected peer's current role. So a
  click on it changes the flag only while a peer is selected and a non-empty
  role other than the peer's own is chosen; and no event at all turns the flag
  on except such a click.
\<close>

theorem checkbox_guard:
  "(checkbox_disabled st \<longleftrightarrow>
      selectedPeer st = None \<or> selectedRole st = [] \<or>
      (\<exists>p. selectedPeer st = Some p \<and> roleName p = Some (selectedRole st))) \<and>
   (forceChange (checkbox_click st) \<noteq> forceChange st \<longrightarrow>
      (\<exists>p. selectedPeer st = Some p \<and> selectedRole st \<noteq> [] \<and>
           roleName p \<noteq> Some (selectedRole st))) \<and>
   (forceChange (handle lpr sdk ev st) \<and> \<not> forceChange st \<longrightarrow>
      ev = CheckboxClick \<and>
      (\<exists>p. selectedPeer st = Some p \<and> selectedRole st \<noteq> [] \<and>
           roleName p \<noteq> Some (selectedRole st)))"
proof (intro conjI)
  show "forceChange (handle lpr sdk ev st) \<and> \<not> forceChange st \<longrightarrow>
      ev = CheckboxClick \<and>
      (\<exists>p. selectedPeer st = Some p \<and> selectedRole st \<noteq> [] \<and>
           roleName p \<noteq> Some (selectedRole st))"
    by (cases ev)
      (auto simp: handleClick_def handleClose_def onUserSettingsClick_def
        handleRoleChangeClose_def select_change_def handleInputChange_def checkbox_click_def
        handleSaveSettings_def Let_def checkbox_disabled_def
        split: option.splits settled.splits if_splits)
qed (auto simp: checkbox_disabled_def checkbox_click_def split: option.splits)

theorem checkbox_guard_witness:
  "checkbox_disabled initial_state \<and>
   checkbox_disabled (dialog_on_alice [] False) \<and>
   checkbox_disabled (dialog_on_alice ''host'' False) \<and>
   \<not> checkbox_disabled (dialog_on_alice ''guest'' False) \<and>
   forceChange (checkbox_click (dialog_on_alice ''guest'' False)) \<and>
   selectedPeer (dialog_on_alice ''guest'' False) = Some alice \<and>
   roleName alice \<noteq> Some ''guest''"
  using checkbox_guard [of initial_state moderator "\<lambda>_. Resolved" CheckboxClick]
    checkbox_guard [of "dialog_on_alice [] False" moderator "\<lambda>_. Resolved" CheckboxClick]
    checkbox_guard [of "dialog_on_alice ''host'' False" moderator "\<lambda>_. Resolved" CheckboxClick]
    checkbox_guard [of "dialog_on_alice ''guest'' False" moderator "\<lambda>_. Resolved" CheckboxClick]
  by (simp add: initial_state_def dialog_on_alice_def alice_def checkbox_click_def)

section \<open>The \<^verbatim>\<open>onToggle\<close> callback\<close>

lemma commit_render_settled:
  "effect_dep (commit_render b m) = Some (listOpen (state (commit_render b m)))"
  by (simp add: commit_render_def)

lemma commit_render_state: "state (commit_render b m) = state m"
  by (simp add: commit_render_def)

lemma dispatch_state: "state (dispatch b lpr sdk m ev) = handle lpr sdk ev (state m)"
  by (simp add: dispatch_def commit_render_state)

lemma dispatch_settled:
  "effect_dep (dispatch b lpr sdk m ev) = Some (listOpen (state (dispatch b lpr sdk m ev)))"
  by (simp add: dispatch_def commit_render_settled)

text \<open>One event after a committed render: a call exactly when \<^verbatim>\<open>listOpen\<close> changed.\<close>

lemma dispatch_log:
  "effect_dep m = Some (listOpen (state m)) \<Longrightarrow>
   onToggle_log (dispatch True lpr sdk m ev) =
     onToggle_log m @ transitions (listOpen (state m)) [listOpen (handle lpr sdk ev (state m))]"
  by (auto simp: dispatch_def commit_render_def)

lemma transitions_Cons: "transitions b (c # cs) = transitions b [c] @ transitions c cs"
  by simp

lemma foldl_dispatch_log:
  "effect_dep m = Some (listOpen (state m)) \<Longrightarrow>
   onToggle_log (foldl (dispatch True lpr sdk) m evs) =
     onToggle_log m @ transitions (listOpen (state m)) (open_trace lpr sdk (state m) evs)"
proof (induction evs arbitrary: m)
  case Nil
  then show ?case by simp
next
  case (Cons ev evs)
  have "onToggle_log (foldl (dispatch True lpr sdk) (dispatch True lpr sdk m ev) evs) =
        onToggle_log (dispatch True lpr sdk m ev) @
        transitions (listOpen (handle lpr sdk ev (state m)))
          (open_trace lpr sdk (handle lpr sdk ev (state m)) evs)"
    using Cons.IH [of "dispatch True lpr sdk m ev"]
    by (simp add: dispatch_state dispatch_settled)
  then show ?case
    using dispatch_log [OF Cons.prems, where lpr = lpr and sdk = sdk and ev = ev]
    by (simp del: transitions.simps
        add: transitions_Cons [of _ _ "open_trace lpr sdk (handle lpr sdk ev (state m)) evs"])
qed

lemma mount_log:
  "onToggle_log (mount True) = [False]"
  "state (mount b) = initial_state"
  "effect_dep (mount b) = Some (listOpen (state (mount b)))"
  by (simp_all add: mount_def commit_render_def initial_state_def)

text \<open>Only the toggle button and a click outside touch \<^verbatim>\<open>listOpen\<close>.\<close>

lemma listOpen_handle:
  "listOpen (handle lpr sdk ev st) =
     (case ev of ToggleClick \<Rightarrow> \<not> listOpen st | ClickAway \<Rightarrow> False | _ \<Rightarrow> listOpen st)"
  by (cases ev)
     (auto simp: handleClick_def handleClose_def onUserSettingsClick_def
       handleRoleChangeClose_def select_change_def handleInputChange_def checkbox_click_def
       handleSaveSettings_def Let_def split: option.splits settled.splits)

text \<open>
  C3, as stated, has no invocation without a transition. The effect also runs
  when the component mounts: with no event at all, hence no transition, the
  callback has been called once, with \<^verbatim>\<open>false\<close>.
\<close>

theorem onToggle_on_mount_counterexample:
  "open_trace moderator (\<lambda>_. Resolved) initial_state [] = [] \<and>
   onToggle_log (run_events True moderator (\<lambda>_. Resolved) []) = [False]"
  by (simp add: run_events_def mount_def commit_render_def initial_state_def)

text \<open>
  C3, amended. For every sequence of events on a mounted participant list, the
  \<^verbatim>\<open>onToggle\<close> callback is invoked once at mount with \<^verbatim>\<open>false\<close>, and after that
  exactly once per open/closed transition, in order, with the new boolean; an
  event that leaves the list as it is (a click outside while it is closed, in
  particular) invokes nothing.
\<close>

theorem onToggle_calls:
  "onToggle_log (run_events True lpr sdk evs) =
     False # transitions False (open_trace lpr sdk initial_state evs)"
  using foldl_dispatch_log [OF mount_log(3) [of True], where lpr = lpr and sdk = sdk and evs = evs]
  by (simp add: run_events_def mount_log(1,2)) (simp add: initial_state_def)

theorem onToggle_calls_witness:
  "onToggle_log (run_events True moderator (\<lambda>_. Resolved)
      [ClickAway, ToggleClick, UserSettingsClick alice, ClickAway, ClickAway,
       ToggleClick, ToggleClick]) =
     [False, True, False, True, False]"
  using onToggle_calls [of moderator "\<lambda>_. Resolved"
      "[ClickAway, ToggleClick, UserSettingsClick alice, ClickAway, ClickAway,
        ToggleClick, ToggleClick]"]
  by (simp add: initial_state_def handleClick_def handleClose_def onUserSettingsClick_def)

section \<open>Grouping by role\<close>

lemma property_key_Some: "property_key (Some s) = s"
  and property_key_None: "property_key None = ''undefined''"
  by (simp_all add: property_key_def)

lemma property_key_inj:
  assumes "Some ''undefined'' \<notin> R" shows "inj_on property_key R"
proof (rule inj_onI)
  fix x y assume "x \<in> R" "y \<in> R" "property_key x = property_key y"
  with assms show "x = y"
    by (cases x; cases y) (auto simp only: property_key_Some property_key_None)
qed

lemma property_key_undefined:
  "property_key r = ''undefined'' \<longleftrightarrow> r = None \<or> r = Some ''undefined''"
  by (cases r) (simp_all only: property_key_Some property_key_None option.simps simp_thms)

lemma group_push_keys:
  "map fst (group_push k v obj) =
     (if k \<in> fst ` set obj then map fst obj else map fst obj @ [k])"
  by (induction obj) (force+)

lemma map_of_group_push:
  "map_of (group_push k v obj) =
     (map_of obj)(k \<mapsto> (case map_of obj k of None \<Rightarrow> [v] | Some vs \<Rightarrow> vs @ [v]))"
  by (induction obj) (auto simp: fun_eq_iff)

lemma groupBy_snoc: "groupBy (xs @ [x]) f = group_push (property_key (f x)) x (groupBy xs f)"
  by (simp add: groupBy_def)

lemma groupBy_Nil: "groupBy [] f = []"
  by (simp add: groupBy_def)

lemma groupBy_keys_set: "fst ` set (groupBy xs f) = (\<lambda>v. property_key (f v)) ` set xs"
proof (induction xs rule: rev_induct)
  case Nil
  then show ?case by (simp add: groupBy_Nil)
next
  case (snoc x xs)
  have "set (map fst (groupBy (xs @ [x]) f)) =
        insert (property_key (f x)) (set (map fst (groupBy xs f)))"
    unfolding groupBy_snoc group_push_keys by auto
  with snoc show ?case by simp
qed

lemma groupBy_keys_distinct: "distinct (map fst (groupBy xs f))"
proof (induction xs rule: rev_induct)
  case Nil
  then show ?case by (simp add: groupBy_Nil)
next
  case (snoc x xs)
  then show ?case unfolding groupBy_snoc group_push_keys by simp
qed

lemma groupBy_lookup:
  "map_of (groupBy xs f) k =
     (if k \<in> (\<lambda>v. property_key (f v)) ` set xs
      then Some (filter (\<lambda>v. property_key (f v) = k) xs) else None)"
proof (induction xs rule: rev_induct)
  case Nil
  then show ?case by (simp add: groupBy_Nil)
next
  case (snoc x xs)
  show ?case
  proof (cases "k = property_key (f x)")
    case True
    have "filter (\<lambda>v. property_key (f v) = k) xs = []"
      if "k \<notin> (\<lambda>v. property_key (f v)) ` set xs"
      using that by (auto simp: filter_empty_conv)
    with True snoc show ?thesis
      unfolding groupBy_snoc map_of_group_push by (simp split: if_splits)
  next
    case False
    with snoc show ?thesis
      unfolding groupBy_snoc map_of_group_push by auto
  qed
qed

lemma object_keys_set: "set (object_keys obj) = fst ` set obj"
  by (auto simp: object_keys_def)

lemma object_keys_distinct: "distinct (map fst obj) \<Longrightarrow> distinct (object_keys obj)"
  by (auto simp: object_keys_def)

lemma roles_set: "set (roles ps) = (\<lambda>p. property_key (roleName (peer p))) ` set ps"
  unfolding roles_def rolesMap_def object_keys_set by (rule groupBy_keys_set)

lemma roles_distinct: "distinct (roles ps)"
  unfolding roles_def rolesMap_def by (rule object_keys_distinct [OF groupBy_keys_distinct])


lemma render_menu_eq:
  "render_menu ps =
     map (\<lambda>role.
            Some \<lparr>header = section_label role @ ''('' @
                     show_nat (length (filter (\<lambda>p. property_key (roleName (peer p)) = role) ps)) @ '')'',
                  rows = filter (\<lambda>p. property_key (roleName (peer p)) = role) ps\<rparr>)
       (roles ps)"
  unfolding render_menu_def
proof (rule map_cong [OF refl])
  fix role assume "role \<in> set (roles ps)"
  then have "role \<in> (\<lambda>p. property_key (roleName (peer p))) ` set ps"
    by (simp only: roles_set)
  then have "map_of (rolesMap ps) role =
             Some (filter (\<lambda>p. property_key (roleName (peer p)) = role) ps)"
    unfolding rolesMap_def groupBy_lookup by simp
  then show "render_group (rolesMap ps) role =
     Some \<lparr>header = section_label role @ ''('' @
              show_nat (length (filter (\<lambda>p. property_key (roleName (peer p)) = role) ps)) @ '')'',
           rows = filter (\<lambda>p. property_key (roleName (peer p)) = role) ps\<rparr>"
    by (simp add: render_group_def)
qed

lemma roles_count:
  assumes "Some ''undefined'' \<notin> (\<lambda>p. roleName (peer p)) ` set ps"
  shows "length (roles ps) = card ((\<lambda>p. roleName (peer p)) ` set ps)"
proof -
  have "card (property_key ` (\<lambda>p. roleName (peer p)) ` set ps) =
        card ((\<lambda>p. roleName (peer p)) ` set ps)"
    using assms by (intro card_image property_key_inj)
  moreover have "length (roles ps) = card (set (roles ps))"
    by (simp add: distinct_card roles_distinct)
  moreover have "set (roles ps) = property_key ` (\<lambda>p. roleName (peer p)) ` set ps"
    unfolding roles_set image_image ..
  ultimately show ?thesis by simp
qed

lemma mem_image_comp: "x \<in> (\<lambda>p. g (h p)) ` S \<longleftrightarrow> (\<exists>r \<in> h ` S. g r = x)"
  by auto

lemma bex_one_of_two: "b \<notin> R \<Longrightarrow> (\<exists>r \<in> R. r = a \<or> r = b) \<longleftrightarrow> a \<in> R"
  by blast

lemma unknown_group_iff:
  assumes "Some ''undefined'' \<notin> (\<lambda>p. roleName (peer p)) ` set ps"
  shows "''undefined'' \<in> set (roles ps) \<longleftrightarrow> None \<in> (\<lambda>p. roleName (peer p)) ` set ps"
proof -
  have "''undefined'' \<in> set (roles ps) \<longleftrightarrow>
        (\<exists>r \<in> (\<lambda>p. roleName (peer p)) ` set ps. property_key r = ''undefined'')"
    unfolding roles_set by (rule mem_image_comp)
  also have "\<dots> \<longleftrightarrow> None \<in> (\<lambda>p. roleName (peer p)) ` set ps"
    unfolding property_key_undefined using assms by (rule bex_one_of_two)
  finally show ?thesis .
qed

text \<open>
  The groups of a participant list: keys are distinct, there is one per
  property key of a role name, and the rows of a group are the participants
  with that key, in their order in the list. This is \<open>roles_distinct\<close>,
  \<open>roles_set\<close> and \<open>render_menu_eq\<close> above. When no peer's role name is the
  string \<^verbatim>\<open>undefined\<close>, distinct role values have distinct keys
  (\<open>roles_count\<close>) and the group under the key \<^verbatim>\<open>undefined\<close> is there
  exactly when some peer has no role name (\<open>unknown_group_iff\<close>).
\<close>

lemma render_menu_example:
  "render_menu [member ''a'' (Some ''host''), member ''b'' (Some ''guest''), member ''c'' None] =
     [Some \<lparr>header = ''host(1)'', rows = [member ''a'' (Some ''host'')]\<rparr>,
      Some \<lparr>header = ''guest(1)'', rows = [member ''b'' (Some ''guest'')]\<rparr>,
      Some \<lparr>header = ''Unknown(1)'', rows = [member ''c'' None]\<rparr>]"
  by code_simp

text \<open>
  C2 says one group per distinct role value, and an \<^verbatim>\<open>Unknown\<close> group when and
  only when some peer has an undefined role name. The code keys the groups by
  the role name as a property key and tests the key against the string
  \<^verbatim>\<open>undefined\<close>, so a role that is named \<^verbatim>\<open>undefined\<close> is not told apart from a
  missing one: a list whose only peer has that role name renders the header
  \<^verbatim>\<open>Unknown(1)\<close> although every peer has a role name, and a peer with that role
  name and a peer with none, two distinct role values, share one group.
\<close>

theorem role_named_undefined_is_unknown:
  "render_menu [member ''a'' (Some ''undefined'')] =
     [Some \<lparr>header = ''Unknown(1)'', rows = [member ''a'' (Some ''undefined'')]\<rparr>] \<and>
   render_menu [member ''a'' (Some ''undefined''), member ''b'' None] =
     [Some \<lparr>header = ''Unknown(2)'',
            rows = [member ''a'' (Some ''undefined''), member ''b'' None]\<rparr>]"
  by code_simp

section \<open>Resolving a class\<close>

text \<open>
  C1. For every default, custom and caller-supplied class map and every slot
  name, the styler returns the caller's value for the slot if it is defined,
  else the custom value if defined, else the default value if defined, else
  the empty string; it is a total function, so it never fails. That is the
  string returned when no compiler handle is given; with a handle, the
  compiler is applied to that same string.
\<close>

theorem styler_resolution:
  "hmsUiClassParserGenerator None tag defaultClasses customClasses classes slot =
     (if classes slot \<noteq> None then the (classes slot)
      else if customClasses slot \<noteq> None then the (customClasses slot)
      else if defaultClasses slot \<noteq> None then the (defaultClasses slot)
      else []) \<and>
   hmsUiClassParserGenerator (Some compile) tag defaultClasses customClasses classes slot =
     compile
       (if classes slot \<noteq> None then the (classes slot)
        else if customClasses slot \<noteq> None then the (customClasses slot)
        else if defaultClasses slot \<noteq> None then the (defaultClasses slot)
        else [])"
  by (auto simp: hmsUiClassParserGenerator_def split: option.splits)

theorem styler_resolution_witness:
  "hmsUiClassParserGenerator None ''hmsui-participantList''
     [''menuItem'' \<mapsto> ''text-gray-100 group''] Map.empty [''menuItem'' \<mapsto> ''my-class'']
     ''menuItem'' = ''my-class'' \<and>
   hmsUiClassParserGenerator None ''hmsui-participantList''
     [''menuItem'' \<mapsto> ''text-gray-100 group''] Map.empty [''menuItem'' \<mapsto> ''my-class'']
     ''carat'' = []"
  using styler_resolution [of "''hmsui-participantList''"
      "[''menuItem'' \<mapsto> ''text-gray-100 group'']" Map.empty "[''menuItem'' \<mapsto> ''my-class'']"
      "''menuItem''" id]
    styler_resolution [of "''hmsui-participantList''"
      "[''menuItem'' \<mapsto> ''text-gray-100 group'']" Map.empty "[''menuItem'' \<mapsto> ''my-class'']"
      "''carat''" id]
  by simp

section \<open>Sizing the video tile\<close>

text \<open>
  C9. For every measured height \<open>h\<close>, shape and aspect ratio \<open>w\<close> by \<open>ah\<close>: the
  width of the video is \<open>h\<close> pixels when the shape is a circle, or a rectangle
  with \<open>w === ah\<close>, and \<open>(w / ah) * h\<close> pixels for any other rectangle; the
  container's width is \<open>h\<close> pixels in the first case and unset in the second.
  The height is measured after mount, and again after every render in which
  the stream, the aspect ratio object or the shape is not the one of the last
  measurement.
\<close>

theorem tile_width:
  assumes "tile_height st = Some h"
    and "tile_displayShape props = shape"
    and "ar_width (tile_aspectRatio ops fresh props) = w"
    and "ar_height (tile_aspectRatio ops fresh props) = ah"
  shows "video_width (render_tile ops fresh props st) =
           (if shape = circle \<or> (shape = rectangle \<and> strict_eq ops w ah) then Px h
            else Px (times_op ops (divide_op ops w ah) h)) \<and>
         container_width (render_tile ops fresh props st) =
           (if shape = circle \<or> (shape = rectangle \<and> strict_eq ops w ah) then Some (Px h)
            else None) \<and>
         tile_height (commit_tile ops fresh props measured (tile_initial ops)) = measured \<and>
         (tile_deps st = Some (s, a, d) \<and>
          (stream props \<noteq> s \<or> ar_ref (tile_aspectRatio ops fresh props) \<noteq> a \<or> shape \<noteq> d) \<longrightarrow>
            tile_height (commit_tile ops fresh props measured st) = measured)"
  using assms
  by (auto simp: render_tile_def getVideoStyles_width_def isSquareOrCircle_def isSquare_def
      isCircle_def commit_tile_def measure_due_def tile_initial_def)

theorem tile_width_witness:
  "video_width
     (render_tile rat_ops 0 wide \<lparr>tile_height = Some 90, tile_deps = Some (1, 2, rectangle)\<rparr>) =
     Px 160 \<and>
   container_width
     (render_tile rat_ops 0 wide \<lparr>tile_height = Some 90, tile_deps = Some (1, 2, rectangle)\<rparr>) =
     None \<and>
   tile_height (commit_tile rat_ops 0 wide (Some 45) (tile_initial rat_ops)) = Some 45 \<and>
   tile_height
     (commit_tile rat_ops 0 wide (Some 45)
        \<lparr>tile_height = Some 90, tile_deps = Some (7, 2, rectangle)\<rparr>) = Some 45"
proof -
  have shape: "tile_displayShape wide = rectangle"
    by (simp add: tile_displayShape_def wide_def)
  have w: "ar_width (tile_aspectRatio rat_ops 0 wide) = 16"
    and ah: "ar_height (tile_aspectRatio rat_ops 0 wide) = 9"
    by (simp_all add: tile_aspectRatio_def wide_def)
  have h1: "tile_height
      \<lparr>tile_height = Some (90::rat), tile_deps = Some (1::nat, 2::nat, rectangle)\<rparr> = Some 90"
    and h2: "tile_height
      \<lparr>tile_height = Some (90::rat), tile_deps = Some (7::nat, 2::nat, rectangle)\<rparr> = Some 90"
    by simp_all
  show ?thesis
    using tile_width [OF h1 shape w ah, of "Some 45" 1 2 rectangle]
      tile_width [OF h2 shape w ah, of "Some 45" 7 2 rectangle]
    by (simp add: rat_ops_def wide_def render_tile_def getVideoStyles_width_def
        isSquareOrCircle_def isSquare_def isCircle_def tile_displayShape_def
        tile_aspectRatio_def)
qed

end
